theory Spec2Isabelle
  imports Complex_Main
begin

section \<open>JavaScript values used by the intelligence service\<close>

text \<open>
  The service under study is the class \<open>AIIntelligenceService\<close> of \<open>server.js\<close>
  (constructor, \<open>searchWebSources\<close>, \<open>searchNewsAPI\<close>, \<open>getMockNewsData\<close>,
  \<open>searchArxiv\<close>, \<open>calculateRelevance\<close>, \<open>getDateFromTimeFrame\<close>).

  A JavaScript string is modelled as a \<^typ>\<open>string\<close>: a list of code units, each below 256.
  A field of an upstream JSON object is absent, \<open>null\<close> or a string.
  Numbers that are compared or divided are \<^typ>\<open>int\<close> (millisecond clock readings),
  \<^typ>\<open>nat\<close> (counts and lengths) and \<^typ>\<open>rat\<close> (the quotient that
  \<open>calculateRelevance\<close> returns, exact where the double is rounded).
\<close>

datatype jsval = Undefined | Null | Str string

datatype js_error =
    SyntaxError          \<comment> \<open>thrown by \<open>new RegExp\<close> on an invalid pattern\<close>
  | TypeError            \<comment> \<open>property read or method call on \<open>null\<close> or \<open>undefined\<close>\<close>
  | RequestFailed        \<comment> \<open>a rejected \<open>axios.get\<close>: network error or non-2xx status\<close>
  | ServiceUnavailable   \<comment> \<open>\<open>new Error('Search service temporarily unavailable')\<close>\<close>
  | Unmodelled           \<comment> \<open>answer of \<open>js_regexp\<close> below outside the fragment it covers\<close>

text \<open>\<open>ToString\<close> as string concatenation applies it to an operand.\<close>

fun js_to_string :: "jsval \<Rightarrow> string" where
  "js_to_string Undefined = ''undefined''"
| "js_to_string Null = ''null''"
| "js_to_string (Str s) = s"

text \<open>\<open>String.prototype.toLowerCase\<close> on code units below 256: the letters A to Z and the
  Latin-1 capitals (0xC0 to 0xDE without the multiplication sign 0xD7) move up by 32.\<close>

definition toLowerCase_char :: "char \<Rightarrow> char" where
  "toLowerCase_char c =
     (let n = (of_char c :: nat)
      in if (65 \<le> n \<and> n \<le> 90) \<or> (192 \<le> n \<and> n \<le> 222 \<and> n \<noteq> 215)
         then char_of (n + 32) else c)"

definition toLowerCase :: "string \<Rightarrow> string" where
  "toLowerCase s = map toLowerCase_char s"

text \<open>\<open>s.split(' ')\<close>: the pieces between single spaces. The result is never empty:
  \<open>''.split(' ')\<close> is \<open>['']\<close>, and two adjacent spaces give an empty piece.\<close>

fun split_space :: "string \<Rightarrow> string list" where
  "split_space [] = [[]]"
| "split_space (c # cs) =
     (if c = CHR '' '' then [] # split_space cs
      else (case split_space cs of
              [] \<Rightarrow> [[c]]
            | w # ws \<Rightarrow> (c # w) # ws))"

text \<open>\<open>s.includes(sub)\<close>: \<open>sub\<close> occurs in \<open>s\<close> as a contiguous block.\<close>

fun starts_with :: "string \<Rightarrow> string \<Rightarrow> bool" where
  "starts_with s [] = True"
| "starts_with [] (b # sub) = False"
| "starts_with (a # s) (b # sub) = (a = b \<and> starts_with s sub)"

fun js_includes :: "string \<Rightarrow> string \<Rightarrow> bool" where
  "js_includes [] sub = (sub = [])"
| "js_includes (a # s) sub = (starts_with (a # s) sub \<or> js_includes s sub)"

text \<open>\<open>String.prototype.trim\<close>: white space and line terminators below 256 are TAB, LF, VT,
  FF, CR, SPACE and NBSP.\<close>

definition js_whitespace :: "char \<Rightarrow> bool" where
  "js_whitespace c = ((of_char c :: nat) \<in> {9, 10, 11, 12, 13, 32, 160})"

definition trim :: "string \<Rightarrow> string" where
  "trim s = rev (dropWhile js_whitespace (rev (dropWhile js_whitespace s)))"

text \<open>\<open>s.substring(0, n)\<close> for a non-negative \<open>n\<close>: the first \<open>min n (length s)\<close> code units.\<close>

definition substring0 :: "string \<Rightarrow> nat \<Rightarrow> string" where
  "substring0 s n = take n s"


section \<open>The regular expression engine\<close>

text \<open>
  \<open>calculateRelevance\<close> builds \<open>new RegExp(word, 'g')\<close> from each query word and counts the
  elements of \<open>textLower.match(...)\<close>. The engine belongs to the JavaScript runtime, so the
  service is modelled over an arbitrary engine \<open>rx\<close>: \<open>rx word text\<close> is \<open>Inl e\<close> when
  the constructor throws \<open>e\<close>, and \<open>Inr n\<close> when the global match finds \<open>n\<close> matches
  (\<open>match\<close> returns \<open>null\<close> for none, which the source turns into the empty array).
\<close>

type_synonym regexp_engine = "string \<Rightarrow> string \<Rightarrow> js_error + nat"

text \<open>
  For evaluation at concrete inputs, \<open>js_regexp\<close> below gives the runtime's answer on a
  fragment of the pattern language: patterns made of ordinary characters, the dot and the
  quantifier characters \<open>*\<close>, \<open>+\<close>, \<open>?\<close>. Within this alphabet a pattern is a sequence of
  terms, each an atom (an ordinary character or a dot) with at most one quantifier, which a
  further \<open>?\<close> may make lazy; any other arrangement is a syntax error
  (\<open>Nothing to repeat\<close>). A well-formed pattern without quantifiers matches at a position
  when every atom matches the code unit under it, the dot matching everything but LF and CR.
  A global match scans from \<open>lastIndex = 0\<close>, continues behind each match, and steps one
  code unit further after an empty match. Patterns with a backslash or one of \<open>^ $ ( ) [ ] { } |\<close>,
  and well-formed patterns with quantifiers, are outside the fragment.
\<close>

definition quantifier_char :: "char \<Rightarrow> bool" where
  "quantifier_char c = (c \<in> set ''*+?'')"

definition other_syntax_char :: "char \<Rightarrow> bool" where
  "other_syntax_char c = (c \<in> set (CHR 0x5C # ''^$()[]{}|''))"

datatype term_state = TermStart | AfterAtom | AfterQuantifier | AfterLazy

fun terms_ok :: "term_state \<Rightarrow> string \<Rightarrow> bool" where
  "terms_ok st [] = True"
| "terms_ok st (c # cs) =
     (if \<not> quantifier_char c then terms_ok AfterAtom cs
      else (case st of
              TermStart \<Rightarrow> False
            | AfterAtom \<Rightarrow> terms_ok AfterQuantifier cs
            | AfterQuantifier \<Rightarrow> (c = CHR ''?'' \<and> terms_ok AfterLazy cs)
            | AfterLazy \<Rightarrow> False))"

definition atom_matches :: "char \<Rightarrow> char \<Rightarrow> bool" where
  "atom_matches a x =
     (if a = CHR ''.'' then x \<noteq> CHR 0x0A \<and> x \<noteq> CHR 0x0D else a = x)"

fun matches_here :: "string \<Rightarrow> string \<Rightarrow> bool" where
  "matches_here [] t = True"
| "matches_here (a # p) [] = False"
| "matches_here (a # p) (x # t) = (atom_matches a x \<and> matches_here p t)"

function global_match_count :: "string \<Rightarrow> string \<Rightarrow> nat" where
  "global_match_count p t =
     (if matches_here p t
      then Suc (case t of
                  [] \<Rightarrow> 0
                | x # xs \<Rightarrow> global_match_count p (if p = [] then xs else drop (length p) t))
      else (case t of
              [] \<Rightarrow> 0
            | x # xs \<Rightarrow> global_match_count p xs))"
  by pat_completeness auto
termination
  by (relation "measure (\<lambda>(p, t). length t)") (auto simp: Suc_le_eq)

definition js_regexp :: regexp_engine where
  "js_regexp p t =
     (if list_ex other_syntax_char p then Inl Unmodelled
      else if \<not> terms_ok TermStart p then Inl SyntaxError
      else if list_ex quantifier_char p then Inl Unmodelled
      else Inr (global_match_count p t))"


section \<open>Relevance scoring\<close>

text \<open>
  \<^verbatim>\<open>
  calculateRelevance(text, query) {
    const queryWords = query.toLowerCase().split(' ');
    const textLower = text.toLowerCase();
    let score = 0;
    queryWords.forEach(word => {
      const matches = (textLower.match(new RegExp(word, 'g')) || []).length;
      score += matches;
    });
    return Math.min(score / queryWords.length, 1);
  }
  \<close>
  The loop is \<open>count_matches\<close>; an exception of the constructor leaves the loop and the
  function.
\<close>

fun count_matches :: "regexp_engine \<Rightarrow> string \<Rightarrow> string list \<Rightarrow> nat \<Rightarrow> js_error + nat" where
  "count_matches rx textLower [] score = Inr score"
| "count_matches rx textLower (word # ws) score =
     (case rx word textLower of
        Inl e \<Rightarrow> Inl e
      | Inr matches \<Rightarrow> count_matches rx textLower ws (score + matches))"

definition calculateRelevance :: "regexp_engine \<Rightarrow> string \<Rightarrow> string \<Rightarrow> js_error + rat" where
  "calculateRelevance rx text query =
     (let queryWords = split_space (toLowerCase query);
          textLower = toLowerCase text
      in case count_matches rx textLower queryWords 0 of
           Inl e \<Rightarrow> Inl e
         | Inr score \<Rightarrow> Inr (min (of_nat score / of_nat (length queryWords)) 1))"


section \<open>Records, upstream replies and the environment of one call\<close>

text \<open>
  \<open>publishedAt\<close> is either the value an upstream reported or the string
  \<open>new Date(ms).toISOString()\<close>, kept as the instant \<open>ms\<close> it prints.
\<close>

datatype published = Reported jsval | IsoString int

record source_record =
  title :: jsval
  description :: jsval
  url :: jsval
  publishedAt :: published
  source :: jsval
  type :: string
  relevanceScore :: rat

text \<open>
  One element of \<open>response.data.articles\<close> of the news API. \<open>article_source\<close> is \<open>None\<close>
  when \<open>article.source\<close> is \<open>null\<close> or absent, so that \<open>article.source.name\<close> throws, and
  \<open>Some n\<close> when it is an object whose \<open>name\<close> is \<open>n\<close>.
\<close>

record article =
  article_title :: jsval
  article_description :: jsval
  article_url :: jsval
  article_publishedAt :: jsval
  article_source :: "jsval option"

text \<open>
  The reply to \<open>axios.get('https://newsapi.org/v2/everything', ...)\<close>: the promise rejects, or
  it resolves to a body whose \<open>articles\<close> is an array (\<open>Some\<close>) or is not there (\<open>None\<close>).
\<close>

datatype news_response = NewsRejected | NewsData "article list option"

text \<open>
  The reply to \<open>axios.get('http://export.arxiv.org/api/query', ...)\<close> after
  \<open>cheerio.load\<close>: the promise rejects, the loader throws, or the document has these
  \<open>entry\<close> elements, each given by the \<open>text()\<close> of its four children.
\<close>

record arxiv_entry =
  entry_title :: string
  entry_summary :: string
  entry_published :: string
  entry_id :: string

datatype arxiv_response = ArxivRejected | ArxivUnparsable | ArxivXml "arxiv_entry list"

text \<open>
  What one call of \<open>searchWebSources\<close> reads from outside: the credential, the two replies
  and the clock, one reading for each place that asks for the time (the cache test, the
  date floor, the fallback records, the result's \<open>timestamp\<close>, the cache entry).
\<close>

record env =
  NEWS_API_KEY :: "string option"
  news_response :: news_response
  arxiv_response :: arxiv_response
  clock_lookup :: int
  clock_from :: int
  clock_mock :: int
  clock_built :: int
  clock_stored :: int

text \<open>The outbound requests a call issues, in order.\<close>

datatype outbound =
    NewsApiGet string int string   \<comment> \<open>\<open>q\<close>, \<open>from\<close>, \<open>apiKey\<close>\<close>
  | ArxivGet string                \<comment> \<open>\<open>search_query\<close>\<close>

text \<open>\<open>!!process.env.NEWS_API_KEY\<close>: an unset variable and the empty string are falsy.\<close>

definition hasKey :: "env \<Rightarrow> bool" where
  "hasKey e = (case NEWS_API_KEY e of None \<Rightarrow> False | Some k \<Rightarrow> k \<noteq> [])"

definition apiKey :: "env \<Rightarrow> string" where
  "apiKey e = (case NEWS_API_KEY e of None \<Rightarrow> [] | Some k \<Rightarrow> k)"

text \<open>A function over a list that stops at the first exception, as \<open>Array.prototype.map\<close>
  with a throwing callback does.\<close>

fun map_throwing :: "('a \<Rightarrow> js_error + 'b) \<Rightarrow> 'a list \<Rightarrow> js_error + 'b list" where
  "map_throwing f [] = Inr []"
| "map_throwing f (x # xs) =
     (case f x of
        Inl e \<Rightarrow> Inl e
      | Inr y \<Rightarrow> (case map_throwing f xs of
                   Inl e \<Rightarrow> Inl e
                 | Inr ys \<Rightarrow> Inr (y # ys)))"


section \<open>The news adapter\<close>

text \<open>
  \<open>getDateFromTimeFrame\<close> returns the date part of an ISO string; the model returns the
  number of the UTC day it names (days since the epoch).
\<close>

definition getDateFromTimeFrame :: "int \<Rightarrow> string \<Rightarrow> int" where
  "getDateFromTimeFrame now tf =
     (if tf = ''day'' then (now - 24 * 60 * 60 * 1000) div 86400000
      else if tf = ''week'' then (now - 7 * 24 * 60 * 60 * 1000) div 86400000
      else if tf = ''month'' then (now - 30 * 24 * 60 * 60 * 1000) div 86400000
      else (now - 7 * 24 * 60 * 60 * 1000) div 86400000)"

definition getMockNewsData :: "int \<Rightarrow> string \<Rightarrow> source_record list" where
  "getMockNewsData now query =
    [ \<lparr> title = Str (''Breakthrough '' @ query @ '' capabilities revolutionize enterprise operations''),
        description = Str (''Revolutionary developments in '' @ query @ '' technology demonstrate unprecedented capabilities for automating complex business processes, with Fortune 500 companies reporting 40% efficiency improvements and significant cost reductions across multiple operational domains.''),
        url = Str ''https://example.com/news/1'',
        publishedAt = IsoString now,
        source = Str ''Enterprise Tech Daily'',
        type = ''news'',
        relevanceScore = 95 / 100 \<rparr>,
      \<lparr> title = Str (query @ '' market dynamics: Investment surge and competitive repositioning''),
        description = Str ''Comprehensive market analysis reveals $25B in new investments driving rapid innovation cycles. Leading technology companies announcing strategic partnerships while startups focus on specialized solutions targeting specific industry verticals.'',
        url = Str ''https://example.com/news/2'',
        publishedAt = IsoString (now - 12 * 60 * 60 * 1000),
        source = Str ''Market Intelligence Report'',
        type = ''industry'',
        relevanceScore = 92 / 100 \<rparr>,
      \<lparr> title = Str (''Regulatory frameworks evolve to address '' @ query @ '' implementation challenges''),
        description = Str ''International regulatory bodies collaborate on comprehensive guidelines addressing privacy, security, and ethical considerations. New compliance frameworks provide clarity for enterprise adoption while ensuring responsible development practices.'',
        url = Str ''https://example.com/news/3'',
        publishedAt = IsoString (now - 18 * 60 * 60 * 1000),
        source = Str ''Regulatory Affairs Quarterly'',
        type = ''news'',
        relevanceScore = 89 / 100 \<rparr>,
      \<lparr> title = Str (''Technical architecture innovations enable scalable '' @ query @ '' deployment''),
        description = Str (''Advanced engineering approaches utilizing microservices, containerization, and edge computing architectures enable organizations to deploy '' @ query @ '' solutions at enterprise scale with improved performance and reliability.''),
        url = Str ''https://example.com/news/4'',
        publishedAt = IsoString (now - 24 * 60 * 60 * 1000),
        source = Str ''Technical Architecture Review'',
        type = ''industry'',
        relevanceScore = 86 / 100 \<rparr>,
      \<lparr> title = Str (''Global adoption patterns reveal regional '' @ query @ '' implementation strategies''),
        description = Str (''Cross-regional analysis demonstrates varying approaches to '' @ query @ '' adoption, with North American companies emphasizing rapid deployment, European organizations prioritizing compliance, and Asian markets focusing on integration with existing systems.''),
        url = Str ''https://example.com/news/5'',
        publishedAt = IsoString (now - 36 * 60 * 60 * 1000),
        source = Str ''Global Technology Trends'',
        type = ''news'',
        relevanceScore = 84 / 100 \<rparr>,
      \<lparr> title = Str (''Industry transformation accelerates through '' @ query @ '' integration''),
        description = Str ''Sector-specific implementations demonstrate transformative potential across healthcare, finance, manufacturing, and retail industries. Case studies reveal measurable improvements in operational efficiency, customer satisfaction, and competitive positioning.'',
        url = Str ''https://example.com/news/6'',
        publishedAt = IsoString (now - 48 * 60 * 60 * 1000),
        source = Str ''Industry Transformation Weekly'',
        type = ''industry'',
        relevanceScore = 88 / 100 \<rparr> ]"

text \<open>The callback of \<open>response.data.articles.map\<close>; the properties are evaluated in the
  order written, so a missing \<open>source\<close> throws before the score is computed.\<close>

definition article_record :: "regexp_engine \<Rightarrow> string \<Rightarrow> article \<Rightarrow> js_error + source_record" where
  "article_record rx query a =
     (case article_source a of
        None \<Rightarrow> Inl TypeError
      | Some name \<Rightarrow>
          (case calculateRelevance rx
                  (js_to_string (article_title a) @ '' '' @ js_to_string (article_description a))
                  query of
             Inl e \<Rightarrow> Inl e
           | Inr score \<Rightarrow>
               Inr \<lparr> title = article_title a,
                     description = article_description a,
                     url = article_url a,
                     publishedAt = Reported (article_publishedAt a),
                     source = name,
                     type = ''news'',
                     relevanceScore = score \<rparr>))"

text \<open>The body of the \<open>try\<close> block of \<open>searchNewsAPI\<close>.\<close>

definition searchNewsAPI_try :: "regexp_engine \<Rightarrow> env \<Rightarrow> string \<Rightarrow> string \<Rightarrow> js_error + source_record list" where
  "searchNewsAPI_try rx e query tf =
     (case news_response e of
        NewsRejected \<Rightarrow> Inl RequestFailed
      | NewsData None \<Rightarrow> Inl TypeError
      | NewsData (Some articles) \<Rightarrow> map_throwing (article_record rx query) articles)"

text \<open>
  \<^verbatim>\<open>
  async searchNewsAPI(query, timeFrame) {
    if (!process.env.NEWS_API_KEY) { return this.getMockNewsData(query); }
    try { ...; return response.data.articles.map(...); }
    catch (error) { logger.error(...); return this.getMockNewsData(query); }
  }
  \<close>
  The result is the settled value of the promise (\<open>Inl\<close> a rejection) and the requests
  issued.
\<close>

definition searchNewsAPI :: "regexp_engine \<Rightarrow> env \<Rightarrow> string \<Rightarrow> string \<Rightarrow> (js_error + source_record list) \<times> outbound list" where
  "searchNewsAPI rx e query tf =
     (if \<not> hasKey e then (Inr (getMockNewsData (clock_mock e) query), [])
      else
        (case searchNewsAPI_try rx e query tf of
           Inr records \<Rightarrow> Inr records
         | Inl error \<Rightarrow> Inr (getMockNewsData (clock_mock e) query),
         [NewsApiGet query (getDateFromTimeFrame (clock_from e) tf) (apiKey e)]))"


section \<open>The academic adapter\<close>

text \<open>The callback of \<open>$('entry').each\<close>.\<close>

definition entry_record :: "regexp_engine \<Rightarrow> string \<Rightarrow> arxiv_entry \<Rightarrow> js_error + source_record" where
  "entry_record rx query elem =
     (let title' = trim (entry_title elem);
          summary = trim (entry_summary elem);
          published = trim (entry_published elem);
          id' = trim (entry_id elem)
      in case calculateRelevance rx (title' @ '' '' @ summary) query of
           Inl e \<Rightarrow> Inl e
         | Inr score \<Rightarrow>
             Inr \<lparr> title = Str title',
                   description = Str (substring0 summary 200 @ ''...''),
                   url = Str id',
                   publishedAt = Reported (Str published),
                   source = Str ''arXiv'',
                   type = ''academic'',
                   relevanceScore = score \<rparr>)"

definition searchArxiv_try :: "regexp_engine \<Rightarrow> env \<Rightarrow> string \<Rightarrow> js_error + source_record list" where
  "searchArxiv_try rx e query =
     (case arxiv_response e of
        ArxivRejected \<Rightarrow> Inl RequestFailed
      | ArxivUnparsable \<Rightarrow> Inl TypeError
      | ArxivXml entries \<Rightarrow> map_throwing (entry_record rx query) entries)"

definition searchArxiv :: "regexp_engine \<Rightarrow> env \<Rightarrow> string \<Rightarrow> (js_error + source_record list) \<times> outbound list" where
  "searchArxiv rx e query =
     (case searchArxiv_try rx e query of
        Inr entries \<Rightarrow> Inr entries
      | Inl error \<Rightarrow> Inr [],
      [ArxivGet (''all:'' @ query)])"


section \<open>The aggregator and its cache\<close>

text \<open>An element of the array \<open>Promise.allSettled\<close> resolves to.\<close>

datatype 'a settled = Fulfilled 'a | Rejected js_error

fun settle :: "js_error + 'a \<Rightarrow> 'a settled" where
  "settle (Inr v) = Fulfilled v"
| "settle (Inl e) = Rejected e"

fun is_fulfilled :: "'a settled \<Rightarrow> bool" where
  "is_fulfilled (Fulfilled v) = True"
| "is_fulfilled (Rejected e) = False"

text \<open>\<open>result.value\<close>; it is read only from fulfilled elements.\<close>

fun settled_value :: "'a list settled \<Rightarrow> 'a list" where
  "settled_value (Fulfilled v) = v"
| "settled_value (Rejected e) = []"

text \<open>\<open>Boolean(r)\<close> for a record: every object is truthy.\<close>

definition js_Boolean :: "source_record \<Rightarrow> bool" where
  "js_Boolean r = True"

record data_source =
  isLive :: bool
  hasNewsAPI :: bool
  sources_news :: nat
  sources_academic :: nat
  sources_mock :: nat
  status :: string

text \<open>The object \<open>data\<close>; \<open>timestamp\<close> is \<open>new Date().toISOString()\<close>, kept as the
  instant it prints.\<close>

record search_result =
  results :: "source_record list"
  totalFound :: nat
  searchQuery :: string
  timeFrame :: string
  timestamp :: int
  dataSource :: data_source

text \<open>A value of \<open>this.cache\<close>: \<open>{ data, timestamp: Date.now() }\<close>. Its \<open>timestamp\<close> is
  named \<open>cachedAt\<close> here, apart from the \<open>timestamp\<close> of the result.\<close>

record cache_entry =
  data :: search_result
  cachedAt :: int

type_synonym cache = "string \<rightharpoonup> cache_entry"

definition cacheExpiry :: int where
  "cacheExpiry = 30 * 60 * 1000"

definition cacheKey :: "string \<Rightarrow> string \<Rightarrow> string" where
  "cacheKey query tf = ''search_'' @ query @ ''_'' @ tf"

text \<open>
  The cache is read and written inside \<open>searchWebSources\<close>:
  \<^verbatim>\<open>
  const cached = this.cache.get(cacheKey);
  if (cached && Date.now() - cached.timestamp < this.cacheExpiry) { return cached.data; }
  ...
  this.cache.set(cacheKey, { data, timestamp: Date.now() });
  \<close>
\<close>

definition cache_get :: "cache \<Rightarrow> string \<Rightarrow> string \<Rightarrow> int \<Rightarrow> search_result option" where
  "cache_get c query tf now =
     (case c (cacheKey query tf) of
        None \<Rightarrow> None
      | Some cached \<Rightarrow> if now - cachedAt cached < cacheExpiry then Some (data cached) else None)"

definition cache_put :: "cache \<Rightarrow> string \<Rightarrow> string \<Rightarrow> search_result \<Rightarrow> int \<Rightarrow> cache" where
  "cache_put c query tf d now = c(cacheKey query tf \<mapsto> \<lparr> data = d, cachedAt = now \<rparr>)"

text \<open>\<open>results.filter(result => result.status === 'fulfilled').map(result => result.value)
  .flat().filter(Boolean)\<close>\<close>

definition processResults :: "source_record list settled list \<Rightarrow> source_record list" where
  "processResults settled_results =
     filter js_Boolean (concat (map settled_value (filter is_fulfilled settled_results)))"

text \<open>\<open>newsResults.some(r => !r.url.includes('example.com'))\<close>: the callback runs on the
  elements in order until it returns true, and throws on a \<open>url\<close> that is no string.\<close>

fun some_not_example :: "source_record list \<Rightarrow> js_error + bool" where
  "some_not_example [] = Inr False"
| "some_not_example (r # rs) =
     (case url r of
        Undefined \<Rightarrow> Inl TypeError
      | Null \<Rightarrow> Inl TypeError
      | Str u \<Rightarrow> if \<not> js_includes u ''example.com'' then Inr True else some_not_example rs)"

text \<open>\<open>r.url && r.url.includes('example.com')\<close>\<close>

definition url_is_example :: "source_record \<Rightarrow> bool" where
  "url_is_example r =
     (case url r of
        Undefined \<Rightarrow> False
      | Null \<Rightarrow> False
      | Str u \<Rightarrow> u \<noteq> [] \<and> js_includes u ''example.com'')"

text \<open>The statements of the \<open>try\<close> block of \<open>searchWebSources\<close> from \<open>processedResults\<close>
  to the object \<open>data\<close>.\<close>

definition build_data :: "env \<Rightarrow> string \<Rightarrow> string \<Rightarrow> source_record list settled list \<Rightarrow> js_error + search_result" where
  "build_data e query tf settled_results =
     (let processedResults = processResults settled_results;
          hasNews = hasKey e;
          newsResults = filter (\<lambda>r. type r = ''news'') processedResults
      in case (if hasNews \<and> length newsResults > 0 then some_not_example newsResults
               else Inr False) of
           Inl err \<Rightarrow> Inl err
         | Inr isLiveData \<Rightarrow>
             Inr \<lparr> results = processedResults,
                   totalFound = length processedResults,
                   searchQuery = query,
                   timeFrame = tf,
                   timestamp = clock_built e,
                   dataSource =
                     \<lparr> isLive = isLiveData,
                       hasNewsAPI = hasNews,
                       sources_news = length newsResults,
                       sources_academic = length (filter (\<lambda>r. type r = ''academic'') processedResults),
                       sources_mock = length (filter url_is_example processedResults),
                       status = (if isLiveData then ''LIVE_DATA'' else ''MOCK_DATA_DEMO'') \<rparr> \<rparr>)"

text \<open>The cache miss of \<open>searchWebSources\<close> once the two promises have settled: any exception
  of the block is replaced by the one generic error, and the cache is written only on
  success.\<close>

definition searchWebSources_settled :: "env \<Rightarrow> cache \<Rightarrow> string \<Rightarrow> string \<Rightarrow> source_record list settled list \<Rightarrow> (js_error + search_result) \<times> cache" where
  "searchWebSources_settled e c query tf settled_results =
     (case build_data e query tf settled_results of
        Inl err \<Rightarrow> (Inl ServiceUnavailable, c)
      | Inr d \<Rightarrow> (Inr d, cache_put c query tf d (clock_stored e)))"

text \<open>
  \<open>searchWebSources(query, timeFrame)\<close> on the cache \<open>c\<close>: the outcome, the cache after
  the call and the requests issued. (The default \<open>'week'\<close> of \<open>timeFrame\<close> is filled in by
  the caller.)
\<close>

definition searchWebSources :: "regexp_engine \<Rightarrow> env \<Rightarrow> cache \<Rightarrow> string \<Rightarrow> string \<Rightarrow> (js_error + search_result) \<times> cache \<times> outbound list" where
  "searchWebSources rx e c query tf =
     (case cache_get c query tf (clock_lookup e) of
        Some d \<Rightarrow> (Inr d, c, [])
      | None \<Rightarrow>
          (let (news, calls1) = searchNewsAPI rx e query tf;
               (academic, calls2) = searchArxiv rx e query;
               (outcome, c') = searchWebSources_settled e c query tf [settle news, settle academic]
           in (outcome, c', calls1 @ calls2)))"


section \<open>Invariants of result sets\<close>

definition is_string :: "jsval \<Rightarrow> bool" where
  "is_string v = (case v of Str s \<Rightarrow> True | Undefined \<Rightarrow> False | Null \<Rightarrow> False)"

text \<open>The news reply holds no article whose \<open>title\<close> or \<open>url\<close> is \<open>null\<close> or absent.\<close>

definition upstream_strings :: "env \<Rightarrow> bool" where
  "upstream_strings e =
     (case news_response e of
        NewsRejected \<Rightarrow> True
      | NewsData None \<Rightarrow> True
      | NewsData (Some articles) \<Rightarrow>
          list_all (\<lambda>a. is_string (article_title a) \<and> is_string (article_url a)) articles)"


text \<open>What holds of a record in a result set: a known \<open>type\<close>, a score between 0 and 1, and
  a string for \<open>title\<close> and \<open>url\<close> when the record is not of type \<open>news\<close>, or
  (\<open>strict\<close>) when no upstream article has lacked them.\<close>

definition record_inv :: "bool \<Rightarrow> source_record \<Rightarrow> bool" where
  "record_inv strict r =
     ((type r = ''news'' \<or> type r = ''industry'' \<or> type r = ''academic'')
      \<and> 0 \<le> relevanceScore r \<and> relevanceScore r \<le> 1
      \<and> (strict \<or> type r \<noteq> ''news'' \<longrightarrow> is_string (title r) \<and> is_string (url r)))"

definition result_inv :: "bool \<Rightarrow> search_result \<Rightarrow> bool" where
  "result_inv strict d =
     (list_all (record_inv strict) (results d) \<and> totalFound d = length (results d))"

definition cache_inv :: "bool \<Rightarrow> cache \<Rightarrow> bool" where
  "cache_inv strict c = (\<forall>k entry. c k = Some entry \<longrightarrow> result_inv strict (data entry))"

text \<open>The caches a service can hold: the constructor's empty map, and the cache after any
  call of \<open>searchWebSources\<close> in an environment that satisfies \<open>P\<close>.\<close>

inductive reachable :: "(env \<Rightarrow> bool) \<Rightarrow> cache \<Rightarrow> bool" for P where
  initial: "reachable P Map.empty"
| search: "reachable P c \<Longrightarrow> P e \<Longrightarrow> searchWebSources rx e c query tf = (outcome, c', calls)
           \<Longrightarrow> reachable P c'"


section \<open>Example inputs\<close>

definition example_article :: article where
  "example_article =
     \<lparr> article_title = Str ''AI chips ship'',
       article_description = Null,
       article_url = Str ''https://news.test/a'',
       article_publishedAt = Str ''2024-05-01T10:00:00Z'',
       article_source = Some (Str ''Wire'') \<rparr>"

definition example_entry :: arxiv_entry where
  "example_entry =
     \<lparr> entry_title = '' AI survey '',
       entry_summary = ''We survey AI chips. '',
       entry_published = ''2024-04-30T00:00:00Z'',
       entry_id = ''http://arxiv.org/abs/2404.00001'' \<rparr>"

text \<open>No credential; both upstreams unreachable.\<close>

definition env_no_key :: env where
  "env_no_key =
     \<lparr> NEWS_API_KEY = None,
       news_response = NewsRejected,
       arxiv_response = ArxivRejected,
       clock_lookup = 1714550000000,
       clock_from = 1714550000000,
       clock_mock = 1714550000001,
       clock_built = 1714550000002,
       clock_stored = 1714550000003 \<rparr>"

text \<open>A credential, one article and one preprint.\<close>

definition env_live :: env where
  "env_live =
     env_no_key \<lparr> NEWS_API_KEY := Some ''k'',
                  news_response := NewsData (Some [example_article]),
                  arxiv_response := ArxivXml [example_entry] \<rparr>"

text \<open>A credential, one article whose \<open>url\<close> is \<open>null\<close>, and a failing preprint request.\<close>

definition env_null_url :: env where
  "env_null_url =
     env_live \<lparr> news_response := NewsData (Some [example_article \<lparr> article_url := Null \<rparr>]),
                arxiv_response := ArxivRejected \<rparr>"

text \<open>A credential, one article whose \<open>title\<close> is \<open>null\<close>, and one preprint.\<close>

definition env_null_title :: env where
  "env_null_title =
     env_live \<lparr> news_response := NewsData (Some [example_article \<lparr> article_title := Null \<rparr>]) \<rparr>"

text \<open>A credential; the news request is rejected and the preprint document does not load.\<close>

definition env_down :: env where
  "env_down = env_live \<lparr> news_response := NewsRejected, arxiv_response := ArxivUnparsable \<rparr>"






section \<open>Auxiliary facts\<close>

lemma global_match_count_empty: "global_match_count [] t = Suc (length t)"
  by (induction t) simp_all

lemma split_space_nonempty: "split_space s \<noteq> []"
  by (induction s) (auto split: list.splits)

lemma calculateRelevance_bounds:
  "calculateRelevance rx text query = Inr s \<Longrightarrow> 0 \<le> s \<and> s \<le> 1"
  by (auto simp: calculateRelevance_def Let_def split: sum.splits)

lemma append_sep_inj:
  "xs @ a # ys = xs' @ a # ys' \<Longrightarrow> a \<notin> set ys \<Longrightarrow> a \<notin> set ys' \<Longrightarrow> xs = xs' \<and> ys = ys'"
proof (induction xs arbitrary: xs')
  case Nil
  then show ?case by (cases xs') auto
next
  case (Cons x xs)
  show ?case
  proof (cases xs')
    case Nil
    with Cons.prems show ?thesis by auto
  next
    case (Cons x' zs)
    with Cons.prems Cons.IH [of zs] show ?thesis by auto
  qed
qed

text \<open>The cache key separates query and time frame by an underscore; it determines both as
  long as the time frames hold no underscore, as \<open>day\<close>, \<open>week\<close> and \<open>month\<close> do.\<close>

lemma cacheKey_inj:
  "cacheKey q1 tf1 = cacheKey q2 tf2 \<Longrightarrow> CHR ''_'' \<notin> set tf1 \<Longrightarrow> CHR ''_'' \<notin> set tf2
   \<Longrightarrow> q1 = q2 \<and> tf1 = tf2"
  using append_sep_inj [of q1 "CHR ''_''" tf1 q2 tf2] by (simp add: cacheKey_def)

lemma cache_independent_without_underscore:
  "(q2, tf2) \<noteq> (q1, tf1) \<Longrightarrow> CHR ''_'' \<notin> set tf1 \<Longrightarrow> CHR ''_'' \<notin> set tf2
   \<Longrightarrow> cache_get (cache_put c q1 tf1 set1 t) q2 tf2 now = cache_get c q2 tf2 now"
  using cacheKey_inj [of q1 tf1 q2 tf2] by (auto simp: cache_get_def cache_put_def)

lemma map_throwing_Inr:
  "map_throwing f xs = Inr ys \<Longrightarrow>
   length ys = length xs \<and> (\<forall>i < length xs. f (xs ! i) = Inr (ys ! i))"
proof (induction xs arbitrary: ys)
  case Nil
  then show ?case by simp
next
  case (Cons x xs)
  then obtain y ys' where y: "f x = Inr y" and ys': "map_throwing f xs = Inr ys'"
    and eq: "ys = y # ys'"
    by (auto split: sum.splits)
  from Cons.IH [OF ys'] y eq show ?case
    by (auto simp: nth_Cons split: nat.splits)
qed

lemma map_throwing_set:
  "map_throwing f xs = Inr ys \<Longrightarrow> y \<in> set ys \<Longrightarrow> \<exists>x \<in> set xs. f x = Inr y"
  by (induction xs arbitrary: ys) (auto split: sum.splits)

lemma miss_ignores_entry:
  "cache_get c query tf (clock_lookup e) = None \<Longrightarrow>
   searchWebSources rx e c query tf =
     (let (news, calls1) = searchNewsAPI rx e query tf;
          (academic, calls2) = searchArxiv rx e query;
          (outcome, c') = searchWebSources_settled e c query tf [settle news, settle academic]
      in (outcome, c', calls1 @ calls2))"
  by (simp add: searchWebSources_def)


text \<open>Each kind of record satisfies the invariant, so every result set a search builds or
  finds in a reachable cache does.\<close>

lemma mock_inv: "list_all (record_inv strict) (getMockNewsData now query)"
  by (simp add: getMockNewsData_def record_inv_def is_string_def)

lemma article_record_inv:
  "article_record rx query a = Inr r \<Longrightarrow>
   (strict \<longrightarrow> is_string (article_title a) \<and> is_string (article_url a)) \<Longrightarrow> record_inv strict r"
  by (auto simp: article_record_def record_inv_def split: option.splits sum.splits
        dest: calculateRelevance_bounds)

lemma entry_record_description:
  "entry_record rx query elem = Inr r \<Longrightarrow>
   description r = Str (take 200 (trim (entry_summary elem)) @ ''...'')"
  by (auto simp: entry_record_def Let_def substring0_def split: sum.splits)

lemma entry_record_inv: "entry_record rx query elem = Inr r \<Longrightarrow> record_inv strict r"
  by (auto simp: entry_record_def record_inv_def is_string_def Let_def split: sum.splits
        dest: calculateRelevance_bounds)

lemma map_throwing_all:
  "map_throwing f xs = Inr ys \<Longrightarrow> (\<And>x y. x \<in> set xs \<Longrightarrow> f x = Inr y \<Longrightarrow> Q y) \<Longrightarrow> list_all Q ys"
  using map_throwing_set [of f xs ys] by (fastforce simp: list_all_iff)

lemma news_inv:
  assumes "fst (searchNewsAPI rx e query tf) = Inr records"
      and "strict \<longrightarrow> upstream_strings e"
  shows "list_all (record_inv strict) records"
proof (cases "hasKey e \<and> (\<exists>rs. searchNewsAPI_try rx e query tf = Inr rs)")
  case False
  with assms(1) have "records = getMockNewsData (clock_mock e) query"
    by (auto simp: searchNewsAPI_def split: if_splits sum.splits)
  then show ?thesis by (simp add: mock_inv)
next
  case True
  then obtain articles where reply: "news_response e = NewsData (Some articles)"
    and m: "map_throwing (article_record rx query) articles = Inr records"
    using assms(1)
    by (auto simp: searchNewsAPI_def searchNewsAPI_try_def
          split: if_splits sum.splits news_response.splits option.splits)
  show ?thesis
  proof (rule map_throwing_all [OF m])
    fix a r
    assume "a \<in> set articles" and "article_record rx query a = Inr r"
    with assms(2) reply show "record_inv strict r"
      by (auto simp: upstream_strings_def list_all_iff intro: article_record_inv)
  qed
qed

lemma academic_inv:
  assumes "fst (searchArxiv rx e query) = Inr records"
  shows "list_all (record_inv strict) records"
proof (cases "searchArxiv_try rx e query")
  case (Inl err)
  with assms show ?thesis by (simp add: searchArxiv_def)
next
  case (Inr rs)
  with assms have eq: "records = rs" by (simp add: searchArxiv_def)
  from Inr obtain entries where m: "map_throwing (entry_record rx query) entries = Inr rs"
    by (auto simp: searchArxiv_try_def split: arxiv_response.splits)
  show ?thesis
    unfolding eq by (rule map_throwing_all [OF m]) (rule entry_record_inv)
qed

lemma build_data_inv:
  "build_data e query tf settled_results = Inr d \<Longrightarrow>
   list_all (record_inv strict) (processResults settled_results) \<Longrightarrow> result_inv strict d"
  by (auto simp: build_data_def Let_def result_inv_def split: sum.splits if_splits)

lemma processResults_two:
  "processResults [Fulfilled news, Fulfilled academic] = news @ academic"
  by (simp add: processResults_def js_Boolean_def)

lemma searchNewsAPI_returns: "\<exists>records calls. searchNewsAPI rx e query tf = (Inr records, calls)"
  by (simp add: searchNewsAPI_def split: sum.splits)

lemma searchArxiv_returns: "\<exists>entries calls. searchArxiv rx e query = (Inr entries, calls)"
  by (simp add: searchArxiv_def split: sum.splits)

lemma search_inv:
  assumes c: "cache_inv strict c"
      and e: "strict \<longrightarrow> upstream_strings e"
      and s: "searchWebSources rx e c query tf = (outcome, c', calls)"
  shows "cache_inv strict c' \<and> (\<forall>d. outcome = Inr d \<longrightarrow> result_inv strict d)"
proof (cases "cache_get c query tf (clock_lookup e)")
  case (Some d')
  with s have eqs: "outcome = Inr d'" "c' = c"
    by (simp_all add: searchWebSources_def)
  from Some obtain entry where "c (cacheKey query tf) = Some entry" "data entry = d'"
    by (auto simp: cache_get_def split: option.splits if_splits)
  with c have "result_inv strict d'" by (auto simp: cache_inv_def)
  with c eqs show ?thesis by simp
next
  case None
  obtain news calls1 where n: "searchNewsAPI rx e query tf = (Inr news, calls1)"
    using searchNewsAPI_returns by blast
  obtain academic calls2 where a: "searchArxiv rx e query = (Inr academic, calls2)"
    using searchArxiv_returns by blast
  from n e have ni: "list_all (record_inv strict) news"
    using news_inv [of rx e query tf news strict] by simp
  from a have ai: "list_all (record_inv strict) academic"
    using academic_inv [of rx e query academic strict] by simp
  have all: "list_all (record_inv strict) (processResults [settle (Inr news), settle (Inr academic)])"
    using ni ai by (simp add: processResults_two)
  show ?thesis
  proof (cases "build_data e query tf [settle (Inr news), settle (Inr academic)]")
    case (Inl err)
    with s c show ?thesis
      by (auto simp: miss_ignores_entry [OF None] n a searchWebSources_settled_def)
  next
    case (Inr d)
    from build_data_inv [OF Inr all] have d: "result_inv strict d" .
    from s Inr have "outcome = Inr d" "c' = cache_put c query tf d (clock_stored e)"
      by (auto simp: miss_ignores_entry [OF None] n a searchWebSources_settled_def)
    with c d show ?thesis
      by (auto simp: cache_inv_def cache_put_def)
  qed
qed

lemma reachable_inv:
  "reachable P c \<Longrightarrow> cache_inv (\<forall>e. P e \<longrightarrow> upstream_strings e) c"
proof (induction rule: reachable.induct)
  case initial
  show ?case by (simp add: cache_inv_def)
next
  case (search c e rx query tf outcome c' calls)
  then show ?case
    using search_inv [of "\<forall>e. P e \<longrightarrow> upstream_strings e" c e rx query tf outcome c' calls]
    by blast
qed

text \<open>A rejected academic promise leaves the news records as the only ones. The search then
  succeeds unless the \<open>isLive\<close> test throws, which it cannot do without a credential.\<close>

lemma processResults_academic_rejected:
  "processResults [Fulfilled news, Rejected err] = news"
  by (simp add: processResults_def js_Boolean_def)

lemma academic_failure_tolerated:
  "build_data e query tf [Fulfilled news, Rejected err] = Inr d \<Longrightarrow>
   results d = news \<and> totalFound d = length news"
  by (auto simp: build_data_def Let_def processResults_academic_rejected split: sum.splits if_splits)

lemma academic_failure_tolerated_without_key:
  "\<not> hasKey e \<Longrightarrow>
   \<exists>d. searchWebSources_settled e c query tf [Fulfilled news, Rejected err]
          = (Inr d, cache_put c query tf d (clock_stored e))
        \<and> results d = news \<and> totalFound d = length news"
  by (simp add: searchWebSources_settled_def build_data_def Let_def processResults_academic_rejected)










section \<open>The cache\<close>

text \<open>
  C1. Claimed: for distinct pairs of query and time frame the cache entries are independent:
  after \<open>put(q1, tf1, set1)\<close>, a \<open>get(q2, tf2)\<close> with \<open>(q2, tf2) \<noteq> (q1, tf1)\<close> never returns
  \<open>set1\<close>. The key \<open>search_<query>_<timeFrame>\<close> does not separate the two parts: the pairs
  \<open>('a_b', 'c')\<close> and \<open>('a', 'b_c')\<close> are distinct and share the key \<open>search_a_b_c\<close>, so
  whatever is stored for the first is returned for the second, in every cache and at every
  time; a search for \<open>('a', 'b_c')\<close> that follows a search for \<open>('a_b', 'c')\<close> issues no
  request and returns the result set of the query \<open>a_b\<close>.
  (\<open>cache_independent_without_underscore\<close> above is the independence that does hold.)
\<close>

theorem cache_key_collision:
  "(''a'', ''b_c'') \<noteq> (''a_b'', ''c'')
   \<and> cache_get (cache_put c ''a_b'' ''c'' set1 now) ''a'' ''b_c'' now = Some set1
   \<and> (case searchWebSources js_regexp env_no_key Map.empty ''a_b'' ''c'' of
         (first, c1, calls1) \<Rightarrow>
           (case searchWebSources js_regexp env_no_key c1 ''a'' ''b_c'' of
              (second, c2, calls2) \<Rightarrow>
                calls2 = [] \<and>
                (case second of Inl err \<Rightarrow> False | Inr d \<Rightarrow> searchQuery d = ''a_b'')))"
proof -
  have "(case searchWebSources js_regexp env_no_key Map.empty ''a_b'' ''c'' of
         (first, c1, calls1) \<Rightarrow>
           (case searchWebSources js_regexp env_no_key c1 ''a'' ''b_c'' of
              (second, c2, calls2) \<Rightarrow>
                calls2 = [] \<and>
                (case second of Inl err \<Rightarrow> False | Inr d \<Rightarrow> searchQuery d = ''a_b'')))"
    by code_simp
  then show ?thesis
    by (simp add: cache_get_def cache_put_def cacheKey_def cacheExpiry_def)
qed






section \<open>Relevance scoring\<close>

text \<open>
  C2, as claimed: for the empty query the score is 0 for every text, and nothing is raised.
  The code splits the empty query into one word, the empty string, whose pattern matches at
  every position of the text; the score of \<open>'abc'\<close> is therefore not 0.
\<close>

theorem empty_query_counterexample:
  "calculateRelevance js_regexp ''abc'' [] \<noteq> Inr 0"
  by (simp add: calculateRelevance_def toLowerCase_def js_regexp_def global_match_count_empty)

text \<open>
  C2, amended: for the empty query the score is 1 for every text, and nothing is raised
  (there is one word, so the divisor is 1; the empty pattern matches \<open>length text + 1\<close>
  times, and the quotient is clamped to 1).
\<close>

theorem empty_query_scores_one:
  "calculateRelevance js_regexp text [] = Inr 1"
  by (simp add: calculateRelevance_def toLowerCase_def js_regexp_def global_match_count_empty)

text \<open>
  C4. Claimed: for every non-empty query and every text the score is defined, without an
  exception, and lies between 0 and 1, the words of the query being counted as literal
  substrings. The code hands each word to \<open>new RegExp\<close> unescaped, so a word is read as a
  pattern: for the query \<open>C++\<close> the constructor throws, and \<open>calculateRelevance\<close> with it.
  (\<open>calculateRelevance_bounds\<close> above gives the bounds whenever a score is returned.)
\<close>

theorem calculateRelevance_throws:
  "calculateRelevance js_regexp ''I like C++'' ''C++'' = Inl SyntaxError"
  by code_simp


section \<open>The news adapter without a credential\<close>

text \<open>
  C3, as claimed: without a credential the adapter returns fallback records every one of
  which has type \<open>news\<close>. The second fallback record has type \<open>industry\<close>.
\<close>

theorem fallback_type_counterexample:
  "\<not> hasKey env_no_key
   \<and> fst (searchNewsAPI js_regexp env_no_key ''quantum computing'' ''week'')
       = Inr (getMockNewsData (clock_mock env_no_key) ''quantum computing'')
   \<and> type (getMockNewsData (clock_mock env_no_key) ''quantum computing'' ! 1) \<noteq> ''news''"
  by (simp add: searchNewsAPI_def hasKey_def env_no_key_def getMockNewsData_def)

text \<open>
  C3, amended: without a credential the adapter issues no request and returns, for every
  query, the fallback sequence: six fabricated records, fixed up to the query and the clock,
  whose types are \<open>news\<close> and \<open>industry\<close> in turn and whose titles all contain the query.
\<close>

theorem no_credential_fallback:
  assumes "\<not> hasKey e"
  shows "searchNewsAPI rx e query tf = (Inr (getMockNewsData (clock_mock e) query), [])
       \<and> map type (getMockNewsData (clock_mock e) query)
           = [''news'', ''industry'', ''news'', ''industry'', ''news'', ''industry'']
       \<and> (\<forall>r \<in> set (getMockNewsData (clock_mock e) query).
             \<exists>pre post. title r = Str (pre @ query @ post))"
proof -
  have adapter: "searchNewsAPI rx e query tf = (Inr (getMockNewsData (clock_mock e) query), [])"
    using assms by (simp add: searchNewsAPI_def)
  have types: "map type (getMockNewsData (clock_mock e) query)
           = [''news'', ''industry'', ''news'', ''industry'', ''news'', ''industry'']"
    by (simp add: getMockNewsData_def)
  have mid: "\<exists>pre post. a @ query @ b = pre @ query @ post" for a b :: string
    by blast
  have front: "\<exists>pre post. query @ b = pre @ query @ post" for b :: string
    by (metis append_Nil)
  have titles: "\<forall>r \<in> set (getMockNewsData (clock_mock e) query).
           \<exists>pre post. title r = Str (pre @ query @ post)"
    unfolding getMockNewsData_def
    by (simp del: append_Cons append_Nil append.simps add: mid front)
  from adapter types titles show ?thesis by blast
qed

theorem no_credential_fallback_witness:
  "\<not> hasKey env_no_key
   \<and> searchNewsAPI js_regexp env_no_key ''quantum computing'' ''week''
       = (Inr (getMockNewsData (clock_mock env_no_key) ''quantum computing''), [])
   \<and> map type (getMockNewsData (clock_mock env_no_key) ''quantum computing'')
       = [''news'', ''industry'', ''news'', ''industry'', ''news'', ''industry'']"
proof -
  have h: "\<not> hasKey env_no_key"
    by (simp add: hasKey_def env_no_key_def)
  show ?thesis
    using h no_credential_fallback [OF h, of js_regexp "''quantum computing''" "''week''"]
    by blast
qed


section \<open>Failures inside the adapters\<close>

text \<open>
  C8. Neither adapter ever raises: for every query, time frame, environment and engine both
  promises fulfil. Whatever exception the \<open>try\<close> block of the news adapter meets (a rejected
  request, a body without articles, an article without source, a pattern the engine
  refuses), the adapter returns the fallback sequence; whatever exception the block of the
  academic adapter meets (a rejected request, a document that does not load, a refused
  pattern), and also when there is no entry, the adapter returns the empty sequence.
\<close>

theorem adapters_never_raise:
  "(\<exists>records. fst (searchNewsAPI rx e query tf) = Inr records)
   \<and> (\<exists>entries. fst (searchArxiv rx e query) = Inr entries)
   \<and> (\<forall>err. searchNewsAPI_try rx e query tf = Inl err \<longrightarrow>
         fst (searchNewsAPI rx e query tf) = Inr (getMockNewsData (clock_mock e) query))
   \<and> (\<forall>err. searchArxiv_try rx e query = Inl err \<longrightarrow> fst (searchArxiv rx e query) = Inr [])
   \<and> (news_response e = NewsRejected \<or> news_response e = NewsData None \<longrightarrow>
         (\<exists>err. searchNewsAPI_try rx e query tf = Inl err))
   \<and> (arxiv_response e = ArxivRejected \<or> arxiv_response e = ArxivUnparsable \<longrightarrow>
         (\<exists>err. searchArxiv_try rx e query = Inl err))
   \<and> (arxiv_response e = ArxivXml [] \<longrightarrow> fst (searchArxiv rx e query) = Inr [])"
proof -
  have news: "\<exists>records. fst (searchNewsAPI rx e query tf) = Inr records"
    by (simp add: searchNewsAPI_def split: sum.splits)
  have academic: "\<exists>entries. fst (searchArxiv rx e query) = Inr entries"
    by (simp add: searchArxiv_def split: sum.splits)
  have news_caught: "\<forall>err. searchNewsAPI_try rx e query tf = Inl err \<longrightarrow>
         fst (searchNewsAPI rx e query tf) = Inr (getMockNewsData (clock_mock e) query)"
    by (auto simp: searchNewsAPI_def)
  have academic_caught: "\<forall>err. searchArxiv_try rx e query = Inl err \<longrightarrow>
         fst (searchArxiv rx e query) = Inr []"
    by (auto simp: searchArxiv_def)
  have news_fails: "news_response e = NewsRejected \<or> news_response e = NewsData None \<longrightarrow>
         (\<exists>err. searchNewsAPI_try rx e query tf = Inl err)"
    by (auto simp: searchNewsAPI_try_def)
  have academic_fails: "arxiv_response e = ArxivRejected \<or> arxiv_response e = ArxivUnparsable \<longrightarrow>
         (\<exists>err. searchArxiv_try rx e query = Inl err)"
    by (auto simp: searchArxiv_try_def)
  have none: "arxiv_response e = ArxivXml [] \<longrightarrow> fst (searchArxiv rx e query) = Inr []"
    by (simp add: searchArxiv_def searchArxiv_try_def)
  from news academic news_caught academic_caught news_fails academic_fails none
  show ?thesis by blast
qed

theorem adapters_never_raise_witness:
  "searchNewsAPI_try js_regexp env_down ''ai'' ''week'' = Inl RequestFailed
   \<and> fst (searchNewsAPI js_regexp env_down ''ai'' ''week'')
       = Inr (getMockNewsData (clock_mock env_down) ''ai'')
   \<and> searchArxiv_try js_regexp env_down ''ai'' = Inl TypeError
   \<and> fst (searchArxiv js_regexp env_down ''ai'') = Inr []
   \<and> searchNewsAPI_try js_regexp env_live ''c++'' ''week'' = Inl SyntaxError
   \<and> fst (searchNewsAPI js_regexp env_live ''c++'' ''week'')
       = Inr (getMockNewsData (clock_mock env_live) ''c++'')"
proof -
  have n: "searchNewsAPI_try js_regexp env_down ''ai'' ''week'' = Inl RequestFailed"
    by (simp add: searchNewsAPI_try_def env_down_def env_live_def env_no_key_def)
  have a: "searchArxiv_try js_regexp env_down ''ai'' = Inl TypeError"
    by (simp add: searchArxiv_try_def env_down_def env_live_def env_no_key_def)
  have s: "searchNewsAPI_try js_regexp env_live ''c++'' ''week'' = Inl SyntaxError"
    by code_simp
  show ?thesis
    using n a s adapters_never_raise [of js_regexp env_down "''ai''" "''week''"]
      adapters_never_raise [of js_regexp env_live "''c++''" "''week''"]
    by simp
qed


section \<open>Descriptions of academic records\<close>

text \<open>
  C10. For every record the academic adapter returns, the description is the first
  \<open>min 200 (length summary)\<close> code units of the trimmed summary of the entry at the same
  position, followed by three dots, whether or not anything was cut: it ends in \<open>...\<close>
  and is at most 203 long.
\<close>

theorem academic_description:
  assumes reply: "arxiv_response e = ArxivXml entries"
      and ok: "fst (searchArxiv rx e query) = Inr records"
      and i: "i < length records"
  shows "i < length entries
       \<and> (let summary = trim (entry_summary (entries ! i));
              d = take (min 200 (length summary)) summary @ ''...''
          in description (records ! i) = Str d
             \<and> length d \<le> 203
             \<and> drop (length d - 3) d = ''...'')"
proof -
  from ok i have m: "map_throwing (entry_record rx query) entries = Inr records"
    using reply by (auto simp: searchArxiv_def searchArxiv_try_def split: sum.splits)
  from map_throwing_Inr [OF m] i
  have len: "i < length entries" and rec: "entry_record rx query (entries ! i) = Inr (records ! i)"
    by auto
  from rec have "description (records ! i)
      = Str (take 200 (trim (entry_summary (entries ! i))) @ ''...'')"
    by (rule entry_record_description)
  moreover have "take (min 200 (length s)) s = take 200 s" for s :: string
    by (simp add: min_def)
  ultimately show ?thesis
    using len by (simp add: Let_def)
qed

theorem academic_description_witness:
  "arxiv_response env_live = ArxivXml [example_entry]
   \<and> (0::nat) < length [example_entry]
   \<and> (case fst (searchArxiv js_regexp env_live ''ai chips'') of
         Inl err \<Rightarrow> False
       | Inr records \<Rightarrow> length records = 1
           \<and> description (records ! 0) = Str ''We survey AI chips....'')"
proof -
  have reply: "arxiv_response env_live = ArxivXml [example_entry]"
    by (simp add: env_live_def)
  have "(case fst (searchArxiv js_regexp env_live ''ai chips'') of
           Inl err \<Rightarrow> False | Inr records \<Rightarrow> length records = 1)"
    by code_simp
  then obtain r where ok: "fst (searchArxiv js_regexp env_live ''ai chips'') = Inr [r]"
    by (auto simp: length_Suc_conv split: sum.splits)
  have i: "(0::nat) < length [r]" by simp
  have t: "trim (entry_summary example_entry) = ''We survey AI chips.''"
    by code_simp
  from academic_description [OF reply ok i] t reply ok show ?thesis
    by (simp add: Let_def)
qed


section \<open>The aggregator\<close>

text \<open>
  C7. Claimed: if the academic adapter fails while the news adapter succeeds, the search
  still succeeds and returns exactly the news records. A failed or rejected academic promise
  does leave exactly the news records (\<open>academic_failure_tolerated\<close> above), but the search
  as a whole can still fail on them: with a credential, \<open>isLiveData\<close> calls
  \<open>r.url.includes\<close> on the news records without the test for a missing \<open>url\<close> that the
  count of mock records three statements later makes. For one live article with \<open>url\<close>
  \<open>null\<close> and a rejected academic request, the news adapter returns its record, and the
  search throws the generic error.
\<close>

theorem null_url_aborts_search:
  "fst (searchNewsAPI js_regexp env_null_url ''ai chips'' ''week'')
     = Inr [\<lparr> title = Str ''AI chips ship'', description = Null, url = Null,
              publishedAt = Reported (Str ''2024-05-01T10:00:00Z''), source = Str ''Wire'',
              type = ''news'', relevanceScore = 1 \<rparr>]
   \<and> searchArxiv_try js_regexp env_null_url ''ai chips'' = Inl RequestFailed
   \<and> fst (searchWebSources js_regexp env_null_url Map.empty ''ai chips'' ''week'')
       = Inl ServiceUnavailable"
  by code_simp

text \<open>
  C9, as claimed: every record of a returned result set has a non-null title, url and type.
  The news adapter copies \<open>article.title\<close> and \<open>article.url\<close> as they come: for an article
  whose title is \<open>null\<close> the search succeeds, with two records, the first without title.
\<close>

theorem null_title_counterexample:
  "(case fst (searchWebSources js_regexp env_null_title Map.empty ''ai chips'' ''week'') of
      Inl err \<Rightarrow> False
    | Inr d \<Rightarrow> title (results d ! 0) = Null \<and> totalFound d = 2)"
  by code_simp

text \<open>
  C9, amended: in every result set that a search returns, from any cache the service can
  hold, \<open>totalFound\<close> is the number of records, and every record has a type (\<open>news\<close>,
  \<open>industry\<close> or \<open>academic\<close>) and a relevance score between 0 and 1; title and url are
  strings on every record whose type is not \<open>news\<close>, and on every record as long as no
  call so far has received a news article whose title or url is not a string.
\<close>

theorem returned_records_invariant:
  assumes "reachable P c" and "P e"
      and "searchWebSources rx e c query tf = (Inr d, c', calls)"
  shows "totalFound d = length (results d)
       \<and> (\<forall>r \<in> set (results d).
            (type r = ''news'' \<or> type r = ''industry'' \<or> type r = ''academic'')
            \<and> 0 \<le> relevanceScore r \<and> relevanceScore r \<le> 1
            \<and> (type r \<noteq> ''news'' \<longrightarrow> is_string (title r) \<and> is_string (url r))
            \<and> ((\<forall>e'. P e' \<longrightarrow> upstream_strings e') \<longrightarrow> is_string (title r) \<and> is_string (url r)))"
proof -
  let ?strict = "\<forall>e'. P e' \<longrightarrow> upstream_strings e'"
  from reachable_inv [OF assms(1)] have "cache_inv ?strict c" .
  from search_inv [OF this _ assms(3)] assms(2) have "result_inv ?strict d"
    by blast
  then show ?thesis
    by (auto simp: result_inv_def record_inv_def list_all_iff)
qed

theorem returned_records_invariant_witness:
  "reachable upstream_strings Map.empty
   \<and> upstream_strings env_live
   \<and> (case fst (searchWebSources js_regexp env_live Map.empty ''ai chips'' ''week'') of
         Inl err \<Rightarrow> False
       | Inr d \<Rightarrow> length (results d) = 2 \<and> totalFound d = 2
           \<and> is_string (title (results d ! 0)) \<and> is_string (url (results d ! 0))
           \<and> 0 \<le> relevanceScore (results d ! 0) \<and> relevanceScore (results d ! 0) \<le> 1)"
proof -
  have h1: "reachable upstream_strings Map.empty"
    by (rule reachable.initial)
  have h2: "upstream_strings env_live"
    by (simp add: upstream_strings_def env_live_def example_article_def is_string_def)
  obtain out c' calls where
    r: "searchWebSources js_regexp env_live Map.empty ''ai chips'' ''week'' = (out, c', calls)"
    by (metis prod_cases3)
  have "(case fst (searchWebSources js_regexp env_live Map.empty ''ai chips'' ''week'') of
           Inl err \<Rightarrow> False | Inr d \<Rightarrow> length (results d) = 2)"
    by code_simp
  with r obtain d where d: "out = Inr d" and len: "length (results d) = 2"
    by (auto split: sum.splits)
  from len have mem: "results d ! 0 \<in> set (results d)"
    by simp
  from returned_records_invariant [OF h1 h2 r [unfolded d]] mem len h1 h2 r d
  show ?thesis
    by auto
qed

end
